theory Spec2Isabelle
  imports Main "HOL-Library.Sublist"
begin

section \<open>The gateway of frontend.go\<close>

text \<open>
  The program is one Go file: a reverse proxy per configured route
  (\<open>NewRewriteReverseProxy\<close>), a response writer that remembers the status code
  (\<open>StatusLoggingResponseWriter\<close>), an access-log middleware (\<open>NewLogrusHandler\<close>) and
  \<open>main\<close>, which builds the routes and starts the server.

  Go strings are byte sequences, so they are \<^typ>\<open>string\<close> here. Errors are strings
  (the error's message). Functions of other packages that the file calls
  (\<open>url.Parse\<close>, \<open>http.StatusText\<close>, the clock, the file and YAML readers) are
  parameters of the definitions that call them.
\<close>

subsection \<open>Strings\<close>

text \<open>
  \<open>strings.HasPrefix(s, prefix)\<close> is \<open>len(s) >= len(prefix) && s[:len(prefix)] == prefix\<close>,
  and \<open>strings.TrimPrefix\<close> cuts the prefix off when it is there and returns \<open>s\<close> as it
  is otherwise.
\<close>

definition HasPrefix :: "string \<Rightarrow> string \<Rightarrow> bool" where
  "HasPrefix s pre = (length pre \<le> length s \<and> take (length pre) s = pre)"

definition TrimPrefix :: "string \<Rightarrow> string \<Rightarrow> string" where
  "TrimPrefix s pre = (if HasPrefix s pre then drop (length pre) s else s)"

subsection \<open>URLs and requests\<close>

text \<open>
  The fields of \<open>url.URL\<close> and of \<open>http.Request\<close> that the file reads or writes, and the
  other fields of the URL so that what the director leaves alone can be stated. A header
  is a map from the canonical key to its values.
\<close>

record url =
  Scheme :: string
  Opaque :: string
  User :: "string option"
  Host :: string
  Path :: string
  RawQuery :: string
  Fragment :: string

record request =
  Method :: string
  URL :: url
  Header :: "string \<rightharpoonup> string list"
  RemoteAddr :: string
  RequestURI :: string

subsection \<open>The rewriting proxy\<close>

text \<open>
  How the process ends before it serves: \<open>log.Fatal\<close> (exit status 1) or a panic.
\<close>

datatype exit = Fatal string | Panic string

text \<open>
  The director is a closure over \<open>basePath\<close>, \<open>target\<close> and \<open>targetQuery\<close>; the record
  \<open>proxy\<close> is that environment. \<open>NewRewriteReverseProxy\<close> parses the backend URL and
  ends the process when the parser returns an error.
\<close>

record proxy =
  basePath :: string
  target :: url
  targetQuery :: string

definition NewRewriteReverseProxy ::
    "(string \<Rightarrow> string + url) \<Rightarrow> string \<Rightarrow> string \<Rightarrow> exit + proxy" where
  "NewRewriteReverseProxy parse base redirectUrl =
     (case parse redirectUrl of
        Inl err \<Rightarrow> Inl (Fatal err)
      | Inr tgt \<Rightarrow> Inr \<lparr>basePath = base, target = tgt, targetQuery = RawQuery tgt\<rparr>)"

text \<open>
  The director mutates the request it is given and only reads its environment. The
  model passes both: it returns the environment after the call and the request after
  the call.
\<close>

definition director :: "proxy \<Rightarrow> request \<Rightarrow> proxy \<times> request" where
  "director p req =
     (let u1 = (URL req)\<lparr>Scheme := Scheme (target p)\<rparr>;
          u2 = u1\<lparr>Host := Host (target p)\<rparr>;
          u3 = u2\<lparr>Path := TrimPrefix (Path u2) (basePath p)\<rparr>;
          u4 = (if targetQuery p = [] \<or> RawQuery u3 = []
                then u3\<lparr>RawQuery := targetQuery p @ RawQuery u3\<rparr>
                else u3\<lparr>RawQuery := targetQuery p @ ''&'' @ RawQuery u3\<rparr>)
      in (p, req\<lparr>URL := u4\<rparr>))"

text \<open>
  The reverse proxy calls its director once for each request it serves. Serving a
  sequence of requests threads the environment from one call to the next.
\<close>

fun director_all :: "proxy \<Rightarrow> request list \<Rightarrow> proxy \<times> request list" where
  "director_all p [] = (p, [])"
| "director_all p (r # rs) =
     (case director p r of
        (p1, r1) \<Rightarrow> (case director_all p1 rs of (p2, rs1) \<Rightarrow> (p2, r1 # rs1)))"

text \<open>
  What \<open>url.Parse\<close> returns on the URL strings of the examples below: the absolute URL
  of the specification's scenario, a relative reference (no scheme, no host: the whole
  string is the path), and a string with a malformed percent escape, which the parser
  rejects. Every other string is left out of the table.
\<close>

definition svc_backend :: url where
  "svc_backend = \<lparr>Scheme = ''http'', Opaque = [], User = None,
     Host = ''backend.local:9000'', Path = ''/base'', RawQuery = ''key=abc'',
     Fragment = []\<rparr>"

definition relative_backend :: url where
  "relative_backend = \<lparr>Scheme = [], Opaque = [], User = None,
     Host = [], Path = ''backend.local/base'', RawQuery = [], Fragment = []\<rparr>"

definition url_Parse_examples :: "string \<Rightarrow> string + url" where
  "url_Parse_examples s =
     (if s = ''http://backend.local:9000/base?key=abc'' then Inr svc_backend
      else if s = ''http://backend.local:9000/base'' then Inr (svc_backend\<lparr>RawQuery := []\<rparr>)
      else if s = ''backend.local/base'' then Inr relative_backend
      else if s = ''http://backend.local/%zz'' then Inl ''invalid URL escape''
      else Inl ''not in the table'')"

text \<open>The inbound request \<open>GET /svc/items?page=2\<close> as the server hands it over.\<close>

definition get_request :: "string \<Rightarrow> string \<Rightarrow> request" where
  "get_request pth qry =
     \<lparr>Method = ''GET'',
      URL = \<lparr>Scheme = [], Opaque = [], User = None, Host = [], Path = pth,
             RawQuery = qry, Fragment = []\<rparr>,
      Header = Map.empty,
      RemoteAddr = ''10.0.0.7:51234'',
      RequestURI = (if qry = [] then pth else pth @ ''?'' @ qry)\<rparr>"

subsection \<open>The status-capturing response writer\<close>

text \<open>
  \<open>http.ResponseWriter\<close> is an interface of three methods. An implementation is a
  state \<open>'w\<close> with the three operations on it; \<open>Header\<close> returns the header (of type
  \<open>'h\<close>), \<open>Write\<close> returns the number of bytes written and an error or \<open>nil\<close>. Each
  operation may change the implementation's state.

  An implementation may have more than the three methods: the interfaces
  \<open>http.Flusher\<close> (\<open>Flush\<close> sends what is buffered to the client),
  \<open>http.Hijacker\<close> and \<open>http.CloseNotifier\<close>, which a handler reaches by a type
  assertion on the writer it was given. \<open>Optional_of\<close> gives the method of such an
  interface where the implementation has it. Of an optional method only its effect on
  the implementation is kept, not what it returns.
\<close>

datatype optional_iface = Flusher | Hijacker | CloseNotifier

record ('w, 'h) writer_iface =
  Header_of :: "'w \<Rightarrow> 'h \<times> 'w"
  Write_of :: "string \<Rightarrow> 'w \<Rightarrow> (int \<times> string option) \<times> 'w"
  WriteHeader_of :: "int \<Rightarrow> 'w \<Rightarrow> 'w"
  Optional_of :: "optional_iface \<Rightarrow> ('w \<Rightarrow> 'w) option"


text \<open>
  The struct has the captured status and the embedded response writer. The status is a
  Go \<open>int\<close>; it is only stored and read back, so it is an \<^typ>\<open>int\<close> here.

  The embedded field has the interface type \<open>http.ResponseWriter\<close>, so the methods of
  the struct are \<open>Status\<close>, \<open>Header\<close>, \<open>Write\<close> and \<open>WriteHeader\<close> and no other: a
  type assertion of the struct to an optional interface fails, whatever the embedded
  writer is.
\<close>

record 'w StatusLoggingResponseWriter =
  status :: int
  ResponseWriter :: 'w

definition NewStatusLoggingResponseWriter :: "'w \<Rightarrow> 'w StatusLoggingResponseWriter" where
  "NewStatusLoggingResponseWriter res = \<lparr>status = 200, ResponseWriter = res\<rparr>"

definition StatusLoggingResponseWriter_has :: "optional_iface \<Rightarrow> bool" where
  "StatusLoggingResponseWriter_has i = False"

definition Status :: "'w StatusLoggingResponseWriter \<Rightarrow> int" where
  "Status w = status w"

definition Header_rw ::
    "('w, 'h) writer_iface \<Rightarrow> 'w StatusLoggingResponseWriter \<Rightarrow>
     'h \<times> 'w StatusLoggingResponseWriter" where
  "Header_rw ops w =
     (case Header_of ops (ResponseWriter w) of (h, res) \<Rightarrow> (h, w\<lparr>ResponseWriter := res\<rparr>))"

definition Write ::
    "('w, 'h) writer_iface \<Rightarrow> string \<Rightarrow> 'w StatusLoggingResponseWriter \<Rightarrow>
     (int \<times> string option) \<times> 'w StatusLoggingResponseWriter" where
  "Write ops data w =
     (case Write_of ops data (ResponseWriter w) of (r, res) \<Rightarrow> (r, w\<lparr>ResponseWriter := res\<rparr>))"

definition WriteHeader ::
    "('w, 'h) writer_iface \<Rightarrow> int \<Rightarrow> 'w StatusLoggingResponseWriter \<Rightarrow>
     'w StatusLoggingResponseWriter" where
  "WriteHeader ops statusCode w =
     (let w1 = w\<lparr>status := statusCode\<rparr>
      in w1\<lparr>ResponseWriter := WriteHeader_of ops statusCode (ResponseWriter w1)\<rparr>)"

subsection \<open>Handlers\<close>

text \<open>
  What a handler does with the response writer it was given is a tree: it returns, or
  it calls one of the three methods and goes on according to what the method returned,
  or it asserts an optional interface and goes on according to whether the writer has
  it (\<open>TypeAssert\<close>), or it asserts an optional interface and calls its method when
  the writer has it (\<open>TypeAssertCall\<close>, the Go idiom
  \<open>if f, ok := w.(http.Flusher); ok { f.Flush() }\<close>). What a handler did is recorded
  as a list: the calls of the three methods, the type assertions and the calls of
  optional methods.
\<close>

datatype 'h handler =
    Return
  | CallHeader "'h \<Rightarrow> 'h handler"
  | CallWrite string "int \<times> string option \<Rightarrow> 'h handler"
  | CallWriteHeader int "'h handler"
  | TypeAssert optional_iface "bool \<Rightarrow> 'h handler"
  | TypeAssertCall optional_iface "bool \<Rightarrow> 'h handler"

datatype call =
    HeaderCall
  | WriteCall string
  | WriteHeaderCall int
  | TypeAssertion optional_iface
  | OptionalCall optional_iface

text \<open>The handler running on the status-capturing writer.\<close>

primrec run_wrapped ::
    "'h handler \<Rightarrow> ('w, 'h) writer_iface \<Rightarrow> 'w StatusLoggingResponseWriter \<Rightarrow>
     'w StatusLoggingResponseWriter \<times> call list" where
  "run_wrapped Return ops w = (w, [])"
| "run_wrapped (CallHeader k) ops w =
     (case Header_rw ops w of
        (h, w1) \<Rightarrow> (case run_wrapped (k h) ops w1 of (w2, cs) \<Rightarrow> (w2, HeaderCall # cs)))"
| "run_wrapped (CallWrite data k) ops w =
     (case Write ops data w of
        (r, w1) \<Rightarrow> (case run_wrapped (k r) ops w1 of (w2, cs) \<Rightarrow> (w2, WriteCall data # cs)))"
| "run_wrapped (CallWriteHeader statusCode h) ops w =
     (case run_wrapped h ops (WriteHeader ops statusCode w) of
        (w2, cs) \<Rightarrow> (w2, WriteHeaderCall statusCode # cs))"
| "run_wrapped (TypeAssert i k) ops w =
     (case run_wrapped (k (StatusLoggingResponseWriter_has i)) ops w of
        (w2, cs) \<Rightarrow> (w2, TypeAssertion i # cs))"
| "run_wrapped (TypeAssertCall i k) ops w =
     (case run_wrapped (k (StatusLoggingResponseWriter_has i)) ops w of
        (w2, cs) \<Rightarrow> (w2, TypeAssertion i # cs))"


text \<open>One call, and a list of calls in order, made on an implementation.\<close>

fun apply_call :: "('w, 'h) writer_iface \<Rightarrow> 'w \<Rightarrow> call \<Rightarrow> 'w" where
  "apply_call ops w HeaderCall = snd (Header_of ops w)"
| "apply_call ops w (WriteCall data) = snd (Write_of ops data w)"
| "apply_call ops w (WriteHeaderCall statusCode) = WriteHeader_of ops statusCode w"
| "apply_call ops w (TypeAssertion i) = w"
| "apply_call ops w (OptionalCall i) =
     (case Optional_of ops i of None \<Rightarrow> w | Some m \<Rightarrow> m w)"

definition apply_calls :: "('w, 'h) writer_iface \<Rightarrow> call list \<Rightarrow> 'w \<Rightarrow> 'w" where
  "apply_calls ops cs w = foldl (apply_call ops) w cs"

fun WriteHeader_codes :: "call list \<Rightarrow> int list" where
  "WriteHeader_codes [] = []"
| "WriteHeader_codes (WriteHeaderCall statusCode # cs) = statusCode # WriteHeader_codes cs"
| "WriteHeader_codes (c # cs) = WriteHeader_codes cs"


text \<open>
  Two implementations for the examples. The state of each is the list of the calls it
  received, its header is empty and every write succeeds in full. \<open>recording\<close> has
  the three methods only; \<open>flushing\<close> is an \<open>http.Flusher\<close> as well.
\<close>

definition recording :: "(call list, string \<rightharpoonup> string list) writer_iface" where
  "recording =
     \<lparr>Header_of = (\<lambda>w. (Map.empty, w @ [HeaderCall])),
      Write_of = (\<lambda>data w. ((int (length data), None), w @ [WriteCall data])),
      WriteHeader_of = (\<lambda>statusCode w. w @ [WriteHeaderCall statusCode]),
      Optional_of = (\<lambda>i. None)\<rparr>"



definition twice_handler :: "(string \<rightharpoonup> string list) handler" where
  "twice_handler =
     CallWriteHeader 404 (CallWriteHeader 500 (CallWrite ''oops'' (\<lambda>r. Return)))"


subsection \<open>The access log\<close>

text \<open>
  A logrus entry has a level, a message and its data, the fields; a field's value is a string, an
  integer or a duration (in nanoseconds). The logger's output is the list of the
  entries emitted so far.
\<close>

datatype field_value = StringField string | IntField int | DurationField int

record log_entry =
  Level :: string
  Message :: string
  Data :: "string \<rightharpoonup> field_value"

text \<open>
  \<open>Header.Get\<close> returns the first value of the key, or the empty string. It looks up
  the canonical form of the key; \<open>X-Request-Id\<close>, the one key the file asks for, is
  its own canonical form.
\<close>

definition Header_Get :: "(string \<rightharpoonup> string list) \<Rightarrow> string \<Rightarrow> string" where
  "Header_Get h key = (case h key of None \<Rightarrow> [] | Some [] \<Rightarrow> [] | Some (v # vs) \<Rightarrow> v)"

text \<open>
  The middleware. \<open>StatusText\<close> is \<open>http.StatusText\<close>; \<open>start\<close> is what \<open>time.Now()\<close>
  returned and \<open>Since\<close> is \<open>time.Since\<close> at the moment the handler has returned. The
  handler is given the request and, as the contract of \<open>http.Handler\<close> asks, does not
  modify it. The result is the underlying writer and the log after the call.
\<close>

definition NewLogrusHandler ::
    "(int \<Rightarrow> string) \<Rightarrow> int \<Rightarrow> (int \<Rightarrow> int) \<Rightarrow> ('w, 'h) writer_iface \<Rightarrow>
     (request \<Rightarrow> 'h handler) \<Rightarrow> 'w \<Rightarrow> request \<Rightarrow> log_entry list \<Rightarrow>
     'w \<times> log_entry list" where
  "NewLogrusHandler StatusText start Since ops handler rw r out =
     (let loggingWriter = NewStatusLoggingResponseWriter rw;
          loggingWriter1 = fst (run_wrapped (handler r) ops loggingWriter);
          latency = Since start;
          entry = [''request'' \<mapsto> StringField (RequestURI r),
                   ''method'' \<mapsto> StringField (Method r),
                   ''remote'' \<mapsto> StringField (RemoteAddr r),
                   ''status'' \<mapsto> IntField (Status loggingWriter1),
                   ''text_status'' \<mapsto> StringField (StatusText (Status loggingWriter1)),
                   ''latency'' \<mapsto> DurationField latency];
          reqID = Header_Get (Header r) ''X-Request-Id'';
          entry1 = (if reqID \<noteq> [] then entry(''request_id'' \<mapsto> StringField reqID)
                    else entry)
      in (ResponseWriter loggingWriter1,
          out @ [\<lparr>Level = ''info'', Message = ''completed handling request'',
                   Data = entry1\<rparr>]))"

text \<open>A request that carries a request id.\<close>

definition id_request :: request where
  "id_request = (get_request ''/svc/items'' ''page=2'')
     \<lparr>Header := [''X-Request-Id'' \<mapsto> [''abc-123'']]\<rparr>"

text \<open>The status texts of the examples.\<close>

definition StatusText_examples :: "int \<Rightarrow> string" where
  "StatusText_examples code =
     (if code = 200 then ''OK'' else if code = 404 then ''Not Found''
      else if code = 500 then ''Internal Server Error'' else [])"

subsection \<open>Routes and \<open>main\<close>\<close>

text \<open>
  A route of the router: the template given to \<open>PathPrefix\<close> and the handler, which is
  \<open>NewCombinedHandler(proxy.ServeHTTP)\<close>: the proxy behind the logging middleware and
  the CORS wrapper. The proxy's environment stands for the handler.
\<close>

record route =
  PathPrefix :: string
  Handler :: proxy

text \<open>
  The \<open>range\<close> loop of \<open>main\<close> over \<open>config.Routes\<close>. Go visits the keys of a map in an
  order of its own choosing, so the routes are a list of (name, backend URL) pairs in the
  order of the visit. \<open>fmt.Sprintf("/%s", base)\<close> is \<open>"/" + base\<close>. The loop stops at the
  first backend URL that ends the process.
\<close>

fun add_routes ::
    "(string \<Rightarrow> string + url) \<Rightarrow> (string \<times> string) list \<Rightarrow> route list \<Rightarrow>
     exit + route list" where
  "add_routes parse [] r = Inr r"
| "add_routes parse ((base, redirectPath) # rest) r =
     (case NewRewriteReverseProxy parse (''/'' @ base) redirectPath of
        Inl e \<Rightarrow> Inl e
      | Inr prx \<Rightarrow>
          add_routes parse rest (r @ [\<lparr>PathPrefix = ''/'' @ base @ ''/'', Handler = prx\<rparr>]))"

text \<open>
  What \<open>main\<close> hands to \<open>graceful.Run\<close>: the address, the drain timeout (a
  \<open>time.Duration\<close>, in nanoseconds) and the router.
\<close>

definition Second :: int where
  "Second = 1000000000"

record server =
  addr :: string
  timeout :: int
  router :: "route list"

text \<open>
  \<open>main\<close>: \<open>configFile\<close> is what \<open>ioutil.ReadFile("config.yaml")\<close> returned,
  \<open>Unmarshal\<close> is the YAML reader giving \<open>config.Routes\<close>, \<open>parse\<close> is \<open>url.Parse\<close>.
\<close>

definition main ::
    "string + string \<Rightarrow> (string \<Rightarrow> string + (string \<times> string) list) \<Rightarrow>
     (string \<Rightarrow> string + url) \<Rightarrow> exit + server" where
  "main configFile Unmarshal parse =
     (case configFile of
        Inl err \<Rightarrow> Inl (Panic err)
      | Inr bytes \<Rightarrow>
          (case Unmarshal bytes of
             Inl err \<Rightarrow> Inl (Panic err)
           | Inr routes \<Rightarrow>
               (case add_routes parse routes [] of
                  Inl e \<Rightarrow> Inl e
                | Inr r \<Rightarrow> Inr \<lparr>addr = '':8080'', timeout = 10 * Second, router = r\<rparr>)))"

text \<open>
  The router's \<open>Match\<close>: the routes are tested in the order in which they were added
  and the first one that matches is taken. A \<open>PathPrefix\<close> route whose template has no
  brace matches the paths that begin with the template. A template with a brace is
  compiled by the router library into a pattern with variables (\<open>{name}\<close>,
  \<open>{name:pattern}\<close>), or into a route that never matches when its braces do not
  balance; \<open>templated\<close> is the library's matcher for such a template, a parameter.
  The router answers a path that is not in canonical form (a doubled slash, a dot
  segment) with a redirect before it gets to \<open>Match\<close>; \<open>Match\<close> is about the paths
  that reach it.
\<close>

definition brace_free :: "string \<Rightarrow> bool" where
  "brace_free tpl = (CHR ''{'' \<notin> set tpl \<and> CHR ''}'' \<notin> set tpl)"

definition route_Match :: "(string \<Rightarrow> string \<Rightarrow> bool) \<Rightarrow> route \<Rightarrow> string \<Rightarrow> bool" where
  "route_Match templated rt pth =
     (if brace_free (PathPrefix rt) then HasPrefix pth (PathPrefix rt)
      else templated (PathPrefix rt) pth)"

fun Match :: "(string \<Rightarrow> string \<Rightarrow> bool) \<Rightarrow> route list \<Rightarrow> string \<Rightarrow> route option" where
  "Match templated [] pth = None"
| "Match templated (rt # rts) pth =
     (if route_Match templated rt pth then Some rt else Match templated rts pth)"


text \<open>
  The route that the loop of \<open>main\<close> adds for a route name whose backend URL parsed
  to \<open>tgt\<close>.
\<close>

definition route_for :: "string \<Rightarrow> url \<Rightarrow> route" where
  "route_for base tgt =
     \<lparr>PathPrefix = ''/'' @ base @ ''/'',
      Handler = \<lparr>basePath = ''/'' @ base, target = tgt, targetQuery = RawQuery tgt\<rparr>\<rparr>"

text \<open>
  What the YAML reader gives on the configuration texts of the examples: one route
  whose backend URL is a relative reference, and one whose backend URL the parser
  rejects.
\<close>

definition Unmarshal_examples :: "string \<Rightarrow> string + (string \<times> string) list" where
  "Unmarshal_examples bytes =
     (if bytes = ''routes: {svc: backend.local/base}''
      then Inr [(''svc'', ''backend.local/base'')]
      else if bytes = ''routes: {svc: http://backend.local/%zz}''
      then Inr [(''svc'', ''http://backend.local/%zz'')]
      else Inl ''not in the table'')"

section \<open>Properties of the director\<close>

lemma HasPrefix_iff_prefix: "HasPrefix s pre \<longleftrightarrow> prefix pre s"
  by (auto simp: HasPrefix_def prefix_def) (metis append_take_drop_id)

lemma TrimPrefix_append: "TrimPrefix (pre @ rest) pre = rest"
  by (simp add: TrimPrefix_def HasPrefix_def)

lemma TrimPrefix_no_prefix: "\<not> HasPrefix s pre \<Longrightarrow> TrimPrefix s pre = s"
  by (simp add: TrimPrefix_def)

lemma director_env: "fst (director p req) = p"
  by (simp add: director_def Let_def)

lemma director_Scheme: "Scheme (URL (snd (director p req))) = Scheme (target p)"
  by (simp add: director_def Let_def)

lemma director_Host: "Host (URL (snd (director p req))) = Host (target p)"
  by (simp add: director_def Let_def)

lemma director_Path:
  "Path (URL (snd (director p req))) = TrimPrefix (Path (URL req)) (basePath p)"
  by (simp add: director_def Let_def)

lemma director_RawQuery:
  "RawQuery (URL (snd (director p req))) =
     (if targetQuery p = [] \<or> RawQuery (URL req) = []
      then targetQuery p @ RawQuery (URL req)
      else targetQuery p @ ''&'' @ RawQuery (URL req))"
  by (simp add: director_def Let_def)

lemma director_rest:
  "Opaque (URL (snd (director p req))) = Opaque (URL req) \<and>
   User (URL (snd (director p req))) = User (URL req) \<and>
   Fragment (URL (snd (director p req))) = Fragment (URL req) \<and>
   Method (snd (director p req)) = Method req \<and>
   Header (snd (director p req)) = Header req \<and>
   RemoteAddr (snd (director p req)) = RemoteAddr req \<and>
   RequestURI (snd (director p req)) = RequestURI req"
  by (simp add: director_def Let_def)

lemma NewRewriteReverseProxy_Inr:
  "NewRewriteReverseProxy parse base redirectUrl = Inr p \<longleftrightarrow>
     (\<exists>tgt. parse redirectUrl = Inr tgt \<and>
        p = \<lparr>basePath = base, target = tgt, targetQuery = RawQuery tgt\<rparr>)"
  by (auto simp: NewRewriteReverseProxy_def split: sum.splits)

lemma director_all_map:
  "director_all p rs = (p, map (\<lambda>r. snd (director p r)) rs)"
proof (induction rs)
  case Nil
  show ?case by simp
next
  case (Cons r rs)
  obtain r1 where r1: "director p r = (p, r1)"
    using director_env [of p r] by (cases "director p r") simp
  with Cons show ?case by simp
qed

text \<open>
  Claim C1. For every route and every inbound request, the query of the rewritten
  request is empty when the backend's query and the inbound query are both empty, is the
  non-empty one of the two as it is when exactly one is empty, and is the backend's
  query, then \<open>&\<close>, then the inbound query when neither is empty. With the configuration
  \<open>svc: http://backend.local:9000/base?key=abc\<close>, the request
  \<open>GET /svc/items?page=2\<close> is matched by the route and rewritten with the query
  \<open>key=abc&page=2\<close>.
\<close>

theorem director_query_merge:
  assumes "NewRewriteReverseProxy parse base redirectUrl = Inr p"
      and "parse redirectUrl = Inr backend"
  shows "(RawQuery backend = [] \<and> RawQuery (URL req) = [] \<longrightarrow>
            RawQuery (URL (snd (director p req))) = []) \<and>
         (RawQuery backend = [] \<and> RawQuery (URL req) \<noteq> [] \<longrightarrow>
            RawQuery (URL (snd (director p req))) = RawQuery (URL req)) \<and>
         (RawQuery backend \<noteq> [] \<and> RawQuery (URL req) = [] \<longrightarrow>
            RawQuery (URL (snd (director p req))) = RawQuery backend) \<and>
         (RawQuery backend \<noteq> [] \<and> RawQuery (URL req) \<noteq> [] \<longrightarrow>
            RawQuery (URL (snd (director p req))) =
              RawQuery backend @ ''&'' @ RawQuery (URL req)) \<and>
         (redirectUrl = ''http://backend.local:9000/base?key=abc'' \<and>
          backend = svc_backend \<longrightarrow>
            (\<exists>srv rt. main (Inr cfg) (\<lambda>bytes. Inr [(''svc'', redirectUrl)]) parse = Inr srv \<and>
               Match templated (router srv) ''/svc/items'' = Some rt \<and>
               RawQuery (URL (snd (director (Handler rt)
                  (get_request ''/svc/items'' ''page=2'')))) = ''key=abc&page=2''))"
proof -
  from assms have tq: "targetQuery p = RawQuery backend"
    by (auto simp: NewRewriteReverseProxy_def)
  have general: "RawQuery (URL (snd (director p req))) =
     (if RawQuery backend = [] \<or> RawQuery (URL req) = []
      then RawQuery backend @ RawQuery (URL req)
      else RawQuery backend @ ''&'' @ RawQuery (URL req))"
    using tq by (simp add: director_RawQuery)
  have scenario: "\<exists>srv rt. main (Inr cfg) (\<lambda>bytes. Inr [(''svc'', redirectUrl)]) parse = Inr srv \<and>
               Match templated (router srv) ''/svc/items'' = Some rt \<and>
               RawQuery (URL (snd (director (Handler rt)
                  (get_request ''/svc/items'' ''page=2'')))) = ''key=abc&page=2''"
    if "redirectUrl = ''http://backend.local:9000/base?key=abc''" "backend = svc_backend"
    using that assms(2)
    by (simp add: main_def NewRewriteReverseProxy_def route_Match_def brace_free_def
        HasPrefix_def
        director_RawQuery svc_backend_def get_request_def)
  show ?thesis using general scenario by simp
qed

theorem director_query_merge_witness:
  "RawQuery (URL (snd (director \<lparr>basePath = ''/svc'', target = svc_backend, targetQuery = ''key=abc''\<rparr>
       (get_request ''/svc/items'' ''page=2'')))) = ''key=abc&page=2'' \<and>
   RawQuery (URL (snd (director \<lparr>basePath = ''/svc'', target = svc_backend, targetQuery = ''key=abc''\<rparr>
       (get_request ''/svc/items'' [])))) = ''key=abc'' \<and>
   RawQuery (URL (snd (director \<lparr>basePath = ''/svc'', target = svc_backend\<lparr>RawQuery := []\<rparr>, targetQuery = []\<rparr>
       (get_request ''/svc/items'' ''page=2'')))) = ''page=2'' \<and>
   RawQuery (URL (snd (director \<lparr>basePath = ''/svc'', target = svc_backend\<lparr>RawQuery := []\<rparr>, targetQuery = []\<rparr>
       (get_request ''/svc/items'' [])))) = []"
proof -
  let ?u = "''http://backend.local:9000/base?key=abc''"
  let ?v = "''http://backend.local:9000/base''"
  let ?p = "\<lparr>basePath = ''/svc'', target = svc_backend, targetQuery = ''key=abc''\<rparr>"
  let ?q = "\<lparr>basePath = ''/svc'', target = svc_backend\<lparr>RawQuery := []\<rparr>, targetQuery = []\<rparr>"
  have p: "NewRewriteReverseProxy url_Parse_examples ''/svc'' ?u = Inr ?p"
    by (simp add: NewRewriteReverseProxy_def url_Parse_examples_def svc_backend_def)
  have pu: "url_Parse_examples ?u = Inr svc_backend"
    by (simp add: url_Parse_examples_def)
  have q: "NewRewriteReverseProxy url_Parse_examples ''/svc'' ?v = Inr ?q"
    by (simp add: NewRewriteReverseProxy_def url_Parse_examples_def svc_backend_def)
  have qv: "url_Parse_examples ?v = Inr (svc_backend\<lparr>RawQuery := []\<rparr>)"
    by (simp add: url_Parse_examples_def)
  show ?thesis
    using director_query_merge [OF p pu, of "get_request ''/svc/items'' ''page=2''"]
          director_query_merge [OF p pu, of "get_request ''/svc/items'' []"]
          director_query_merge [OF q qv, of "get_request ''/svc/items'' ''page=2''"]
          director_query_merge [OF q qv, of "get_request ''/svc/items'' []"]
    by (simp add: svc_backend_def get_request_def)
qed

text \<open>
  Claim C2. For every inbound request whose path starts with the route's prefix, the
  director sets the scheme of the rewritten request to the backend URL's scheme, its host
  to the backend URL's host, and its path to the inbound path without the prefix: the
  prefix followed by the new path is the inbound path, so nothing after the prefix is
  altered.
\<close>

theorem director_strips_prefix:
  assumes "NewRewriteReverseProxy parse base redirectUrl = Inr p"
      and "parse redirectUrl = Inr backend"
      and "HasPrefix (Path (URL req)) base"
  shows "Scheme (URL (snd (director p req))) = Scheme backend \<and>
         Host (URL (snd (director p req))) = Host backend \<and>
         Path (URL (snd (director p req))) = drop (length base) (Path (URL req)) \<and>
         base @ Path (URL (snd (director p req))) = Path (URL req)"
proof -
  from assms(1,2) have p: "basePath p = base" "target p = backend"
    by (auto simp: NewRewriteReverseProxy_def)
  from assms(3) have "take (length base) (Path (URL req)) = base"
    by (simp add: HasPrefix_def)
  then have "base @ drop (length base) (Path (URL req)) = Path (URL req)"
    by (metis append_take_drop_id)
  with assms(3) p show ?thesis
    by (simp add: director_Scheme director_Host director_Path TrimPrefix_def)
qed

theorem director_strips_prefix_witness:
  "HasPrefix ''/svc/items'' ''/svc'' \<and>
   Scheme (URL (snd (director \<lparr>basePath = ''/svc'', target = svc_backend, targetQuery = ''key=abc''\<rparr>
       (get_request ''/svc/items'' ''page=2'')))) = ''http'' \<and>
   Host (URL (snd (director \<lparr>basePath = ''/svc'', target = svc_backend, targetQuery = ''key=abc''\<rparr>
       (get_request ''/svc/items'' ''page=2'')))) = ''backend.local:9000'' \<and>
   Path (URL (snd (director \<lparr>basePath = ''/svc'', target = svc_backend, targetQuery = ''key=abc''\<rparr>
       (get_request ''/svc/items'' ''page=2'')))) = ''/items''"
proof -
  let ?u = "''http://backend.local:9000/base?key=abc''"
  let ?p = "\<lparr>basePath = ''/svc'', target = svc_backend, targetQuery = ''key=abc''\<rparr>"
  have p: "NewRewriteReverseProxy url_Parse_examples ''/svc'' ?u = Inr ?p"
    by (simp add: NewRewriteReverseProxy_def url_Parse_examples_def svc_backend_def)
  have pu: "url_Parse_examples ?u = Inr svc_backend"
    by (simp add: url_Parse_examples_def)
  have h: "HasPrefix (Path (URL (get_request ''/svc/items'' ''page=2''))) ''/svc''"
    by (simp add: HasPrefix_def get_request_def)
  show ?thesis
    using director_strips_prefix [OF p pu h] h
    by (simp add: svc_backend_def get_request_def)
qed

text \<open>
  Claim C9. The director is total also where the router gives no guarantee: for every
  inbound request whose path does not start with the route's prefix, the rewrite returns
  a request, with the path as it was, the scheme and host of the backend, and the merged
  query; nothing else of the request changes.
\<close>

theorem director_total_without_prefix:
  assumes "\<not> HasPrefix (Path (URL req)) (basePath p)"
  shows "director p req =
           (p, req\<lparr>URL := (URL req)
              \<lparr>Scheme := Scheme (target p), Host := Host (target p),
               RawQuery :=
                 (if targetQuery p = [] \<or> RawQuery (URL req) = []
                  then targetQuery p @ RawQuery (URL req)
                  else targetQuery p @ ''&'' @ RawQuery (URL req))\<rparr>\<rparr>) \<and>
         Path (URL (snd (director p req))) = Path (URL req)"
  using assms by (simp add: director_def Let_def TrimPrefix_def)

theorem director_total_without_prefix_witness:
  "\<not> HasPrefix ''/other/items'' ''/svc'' \<and>
   URL (snd (director \<lparr>basePath = ''/svc'', target = svc_backend, targetQuery = ''key=abc''\<rparr>
       (get_request ''/other/items'' ''page=2''))) =
     \<lparr>Scheme = ''http'', Opaque = [], User = None, Host = ''backend.local:9000'',
      Path = ''/other/items'', RawQuery = ''key=abc&page=2'', Fragment = []\<rparr>"
proof -
  let ?p = "\<lparr>basePath = ''/svc'', target = svc_backend, targetQuery = ''key=abc''\<rparr>"
  have h: "\<not> HasPrefix (Path (URL (get_request ''/other/items'' ''page=2''))) (basePath ?p)"
    by (simp add: HasPrefix_def get_request_def)
  show ?thesis
    using director_total_without_prefix [OF h] h
    by (simp add: svc_backend_def get_request_def)
qed

text \<open>
  Claim C7. The rewrite is deterministic and stateless: a call of the director leaves
  its environment (the prefix, the backend target and the backend's query) as it was; two
  inbound requests with the same path and query get the same scheme, host, path and
  query, and the same request served twice is rewritten to the same request twice; in a
  sequence of requests each one is rewritten as if it were the only one.
\<close>

theorem director_stateless:
  "fst (director p r) = p \<and>
   (Path (URL r1) = Path (URL r2) \<and> RawQuery (URL r1) = RawQuery (URL r2) \<longrightarrow>
      Scheme (URL (snd (director p r1))) = Scheme (URL (snd (director p r2))) \<and>
      Host (URL (snd (director p r1))) = Host (URL (snd (director p r2))) \<and>
      Path (URL (snd (director p r1))) = Path (URL (snd (director p r2))) \<and>
      RawQuery (URL (snd (director p r1))) = RawQuery (URL (snd (director p r2)))) \<and>
   director_all p [r, r] = (p, [snd (director p r), snd (director p r)]) \<and>
   director_all p rs = (p, map (\<lambda>r. snd (director p r)) rs)"
  by (simp add: director_env director_Scheme director_Host director_Path
      director_RawQuery director_all_map)

theorem director_stateless_witness:
  "director_all \<lparr>basePath = ''/svc'', target = svc_backend, targetQuery = ''key=abc''\<rparr>
     [get_request ''/svc/items'' ''page=2'', get_request ''/svc/items'' ''page=2''] =
   (\<lparr>basePath = ''/svc'', target = svc_backend, targetQuery = ''key=abc''\<rparr>,
    [(get_request ''/svc/items'' ''page=2'')\<lparr>URL := svc_backend\<lparr>Path := ''/items'', RawQuery := ''key=abc&page=2''\<rparr>\<rparr>,
     (get_request ''/svc/items'' ''page=2'')\<lparr>URL := svc_backend\<lparr>Path := ''/items'', RawQuery := ''key=abc&page=2''\<rparr>\<rparr>]) \<and>
   Path (URL (snd (director \<lparr>basePath = ''/svc'', target = svc_backend, targetQuery = ''key=abc''\<rparr>
       ((get_request ''/svc/items'' ''page=2'')\<lparr>Method := ''POST''\<rparr>)))) = ''/items''"
proof -
  let ?p = "\<lparr>basePath = ''/svc'', target = svc_backend, targetQuery = ''key=abc''\<rparr>"
  let ?r = "get_request ''/svc/items'' ''page=2''"
  let ?r' = "?r\<lparr>URL := svc_backend\<lparr>Path := ''/items'', RawQuery := ''key=abc&page=2''\<rparr>\<rparr>"
  note T = director_stateless [where p = ?p and r = ?r and ?r1.0 = ?r
            and ?r2.0 = "?r\<lparr>Method := ''POST''\<rparr>" and rs = "[?r, ?r]"]
  have d: "snd (director ?p ?r) = ?r'"
    by (simp add: director_def Let_def TrimPrefix_def HasPrefix_def svc_backend_def get_request_def)
  have e: "Path (URL ?r) = Path (URL (?r\<lparr>Method := ''POST''\<rparr>)) \<and>
           RawQuery (URL ?r) = RawQuery (URL (?r\<lparr>Method := ''POST''\<rparr>))"
    by simp
  from T have a: "director_all ?p [?r, ?r] = (?p, [snd (director ?p ?r), snd (director ?p ?r)])"
    by blast
  from T e have "Path (URL (snd (director ?p ?r))) =
      Path (URL (snd (director ?p (?r\<lparr>Method := ''POST''\<rparr>))))"
    by blast
  then have b: "Path (URL (snd (director ?p (?r\<lparr>Method := ''POST''\<rparr>)))) = Path (URL ?r')"
    by (simp only: d)
  have c: "Path (URL ?r') = ''/items''" by simp
  from a have a': "director_all ?p [?r, ?r] = (?p, [?r', ?r'])" by (simp only: d)
  from a' b c show ?thesis by (simp only:) 
qed

section \<open>Properties of the status-capturing writer\<close>

lemma WriteHeader_simps:
  "Status (WriteHeader ops c w) = c"
  "ResponseWriter (WriteHeader ops c w) = WriteHeader_of ops c (ResponseWriter w)"
  by (simp_all add: WriteHeader_def Status_def Let_def)

lemma Write_simps:
  "fst (Write ops d w) = fst (Write_of ops d (ResponseWriter w))"
  "ResponseWriter (snd (Write ops d w)) = snd (Write_of ops d (ResponseWriter w))"
  "Status (snd (Write ops d w)) = Status w"
  by (simp_all add: Write_def Status_def split: prod.splits)

lemma Header_rw_simps:
  "fst (Header_rw ops w) = fst (Header_of ops (ResponseWriter w))"
  "ResponseWriter (snd (Header_rw ops w)) = snd (Header_of ops (ResponseWriter w))"
  "Status (snd (Header_rw ops w)) = Status w"
  by (simp_all add: Header_rw_def Status_def split: prod.splits)




lemma run_wrapped_apply_calls:
  "ResponseWriter (fst (run_wrapped h ops w)) =
     apply_calls ops (snd (run_wrapped h ops w)) (ResponseWriter w)"
proof (induction h arbitrary: w)
  case Return
  show ?case by (simp add: apply_calls_def)
next
  case (CallHeader k)
  obtain hd w1 where a: "Header_rw ops w = (hd, w1)" by (cases "Header_rw ops w")
  with Header_rw_simps(2) [of ops w]
  have b: "snd (Header_of ops (ResponseWriter w)) = ResponseWriter w1" by simp
  from CallHeader.IH [of "k hd" w1] a b show ?case
    by (simp add: apply_calls_def case_prod_beta)
next
  case (CallWrite d k)
  obtain r w1 where a: "Write ops d w = (r, w1)" by (cases "Write ops d w")
  with Write_simps(2) [of ops d w]
  have b: "snd (Write_of ops d (ResponseWriter w)) = ResponseWriter w1" by simp
  from CallWrite.IH [of "k r" w1] a b show ?case
    by (simp add: apply_calls_def case_prod_beta)
next
  case (CallWriteHeader c h)
  from CallWriteHeader.IH [of "WriteHeader ops c w"] show ?case
    by (simp add: apply_calls_def WriteHeader_simps case_prod_beta)
next
  case (TypeAssert i k)
  from TypeAssert.IH [of "k False" w] show ?case
    by (simp add: apply_calls_def case_prod_beta StatusLoggingResponseWriter_has_def)
next
  case (TypeAssertCall i k)
  from TypeAssertCall.IH [of "k False" w] show ?case
    by (simp add: apply_calls_def case_prod_beta StatusLoggingResponseWriter_has_def)
qed

lemma run_wrapped_Status:
  "Status (fst (run_wrapped h ops w)) =
     last (Status w # WriteHeader_codes (snd (run_wrapped h ops w)))"
proof (induction h arbitrary: w)
  case Return
  show ?case by simp
next
  case (CallHeader k)
  obtain hd w1 where a: "Header_rw ops w = (hd, w1)" by (cases "Header_rw ops w")
  with Header_rw_simps(3) [of ops w] have "Status w1 = Status w" by simp
  with CallHeader.IH [of "k hd" w1] a show ?case by (simp add: case_prod_beta)
next
  case (CallWrite d k)
  obtain r w1 where a: "Write ops d w = (r, w1)" by (cases "Write ops d w")
  with Write_simps(3) [of ops d w] have "Status w1 = Status w" by simp
  with CallWrite.IH [of "k r" w1] a show ?case by (simp add: case_prod_beta)
next
  case (CallWriteHeader c h)
  from CallWriteHeader.IH [of "WriteHeader ops c w"] show ?case
    by (simp add: WriteHeader_simps case_prod_beta)
next
  case (TypeAssert i k)
  from TypeAssert.IH [of "k False" w] show ?case
    by (simp add: case_prod_beta StatusLoggingResponseWriter_has_def)
next
  case (TypeAssertCall i k)
  from TypeAssertCall.IH [of "k False" w] show ?case
    by (simp add: case_prod_beta StatusLoggingResponseWriter_has_def)
qed

lemma NewStatusLoggingResponseWriter_simps:
  "Status (NewStatusLoggingResponseWriter res) = 200"
  "ResponseWriter (NewStatusLoggingResponseWriter res) = res"
  by (simp_all add: NewStatusLoggingResponseWriter_def Status_def)




text \<open>
  Claim C10. Every call that the handler makes reaches the underlying writer, in order:
  its state after the handler is the state after those calls made on it one by one. When
  the handler has set the status at least once, the status read after it has returned is
  the argument of its last call; two calls in a row leave the second argument captured
  and forward both codes.
\<close>

theorem status_last_write_wins:
  "ResponseWriter (fst (run_wrapped h ops w)) =
     apply_calls ops (snd (run_wrapped h ops w)) (ResponseWriter w) \<and>
   (WriteHeader_codes (snd (run_wrapped h ops w)) \<noteq> [] \<longrightarrow>
      Status (fst (run_wrapped h ops w)) =
        last (WriteHeader_codes (snd (run_wrapped h ops w)))) \<and>
   Status (WriteHeader ops c2 (WriteHeader ops c1 w)) = c2 \<and>
   ResponseWriter (WriteHeader ops c2 (WriteHeader ops c1 w)) =
     WriteHeader_of ops c2 (WriteHeader_of ops c1 (ResponseWriter w))"
  using run_wrapped_apply_calls [of h ops w] run_wrapped_Status [of h ops w]
  by (simp add: WriteHeader_simps)

theorem status_last_write_wins_witness:
  "WriteHeader_codes (snd (run_wrapped twice_handler recording
      (NewStatusLoggingResponseWriter []))) = [404, 500] \<and>
   Status (fst (run_wrapped twice_handler recording
      (NewStatusLoggingResponseWriter []))) = 500 \<and>
   ResponseWriter (fst (run_wrapped twice_handler recording
      (NewStatusLoggingResponseWriter []))) =
     [WriteHeaderCall 404, WriteHeaderCall 500, WriteCall ''oops'']"
proof -
  let ?w = "NewStatusLoggingResponseWriter ([] :: call list)"
  have c: "snd (run_wrapped twice_handler recording ?w) =
             [WriteHeaderCall 404, WriteHeaderCall 500, WriteCall ''oops'']"
    by (simp add: twice_handler_def split: prod.splits)
  have a: "apply_calls recording [WriteHeaderCall 404, WriteHeaderCall 500, WriteCall ''oops'']
             [] = [WriteHeaderCall 404, WriteHeaderCall 500, WriteCall ''oops'']"
    by (simp add: apply_calls_def recording_def)
  show ?thesis
    using status_last_write_wins [of twice_handler recording ?w 404 500]
    by (simp add: c a NewStatusLoggingResponseWriter_simps)
qed

section \<open>Properties of the access log\<close>

text \<open>
  Claim C6. For every request that goes through the logging middleware and whose handler
  returns, the log grows by exactly one entry, made from the status captured when the
  handler has returned: it has the request URI, the method, the remote address, the
  captured status, the text of that status and the latency. It has a request-id field
  exactly when the first value of the request's \<open>X-Request-Id\<close> header is not the empty
  string, and the field is that value as it is. It has no other field.
\<close>

theorem access_log_record:
  "\<exists>e. snd (NewLogrusHandler StatusText start Since ops handler rw r out) = out @ [e] \<and>
      Message e = ''completed handling request'' \<and>
      Data e ''request'' = Some (StringField (RequestURI r)) \<and>
      Data e ''method'' = Some (StringField (Method r)) \<and>
      Data e ''remote'' = Some (StringField (RemoteAddr r)) \<and>
      Data e ''status'' = Some (IntField
         (Status (fst (run_wrapped (handler r) ops (NewStatusLoggingResponseWriter rw))))) \<and>
      Data e ''text_status'' = Some (StringField (StatusText
         (Status (fst (run_wrapped (handler r) ops (NewStatusLoggingResponseWriter rw)))))) \<and>
      Data e ''latency'' = Some (DurationField (Since start)) \<and>
      (Data e ''request_id'' \<noteq> None \<longleftrightarrow> Header_Get (Header r) ''X-Request-Id'' \<noteq> []) \<and>
      (Header_Get (Header r) ''X-Request-Id'' \<noteq> [] \<longrightarrow>
         Data e ''request_id'' =
           Some (StringField (Header_Get (Header r) ''X-Request-Id''))) \<and>
      dom (Data e) \<subseteq> {''request'', ''method'', ''remote'', ''status'', ''text_status'',
         ''latency'', ''request_id''}"
  by (simp add: NewLogrusHandler_def Let_def)

theorem access_log_record_witness:
  "Header_Get (Header id_request) ''X-Request-Id'' \<noteq> [] \<and>
   (\<exists>e. snd (NewLogrusHandler StatusText_examples 1000 (\<lambda>t. 2500) recording
              (\<lambda>r. twice_handler) [] id_request []) = [e] \<and>
      Data e ''status'' = Some (IntField 500) \<and>
      Data e ''text_status'' = Some (StringField ''Internal Server Error'') \<and>
      Data e ''latency'' = Some (DurationField 2500) \<and>
      Data e ''request_id'' = Some (StringField ''abc-123''))"
proof -
  have s: "Status (fst (run_wrapped twice_handler recording
             (NewStatusLoggingResponseWriter []))) = 500"
    by (simp add: twice_handler_def case_prod_beta Write_simps WriteHeader_simps)
  have g: "Header_Get (Header id_request) ''X-Request-Id'' = ''abc-123''"
    by (simp add: Header_Get_def id_request_def)
  show ?thesis
    using access_log_record [of StatusText_examples 1000 "\<lambda>t. 2500" recording
            "\<lambda>r. twice_handler" "[]" id_request "[]"]
    by (auto simp: s g StatusText_examples_def)
qed

section \<open>Properties of the route table\<close>

lemma add_routes_Inr:
  "add_routes parse routes r0 = Inr table \<longleftrightarrow>
     (\<forall>(n, u) \<in> set routes. \<not> isl (parse u)) \<and>
     table = r0 @ map (\<lambda>(n, u). route_for n (projr (parse u))) routes"
proof (induction routes arbitrary: r0)
  case Nil
  show ?case by auto
next
  case (Cons a routes)
  obtain n u where a: "a = (n, u)" by (cases a)
  show ?case
  proof (cases "parse u")
    case (Inl e)
    then show ?thesis by (simp add: a NewRewriteReverseProxy_def)
  next
    case (Inr tgt)
    then show ?thesis
      using Cons [of "r0 @ [route_for n tgt]"]
      by (simp add: a NewRewriteReverseProxy_def route_for_def)
  qed
qed

lemma add_routes_Inl:
  "add_routes parse routes r0 = Inl x \<Longrightarrow>
     \<exists>e. x = Fatal e \<and> (\<exists>(n, u) \<in> set routes. parse u = Inl e)"
proof (induction routes arbitrary: r0)
  case Nil
  then show ?case by simp
next
  case (Cons a routes)
  obtain n u where a: "a = (n, u)" by (cases a)
  show ?case
  proof (cases "parse u")
    case (Inl e)
    with Cons.prems show ?thesis by (auto simp: a NewRewriteReverseProxy_def)
  next
    case (Inr tgt)
    with Cons.prems have "add_routes parse routes (r0 @ [route_for n tgt]) = Inl x"
      by (simp add: a NewRewriteReverseProxy_def route_for_def)
    from Cons.IH [OF this] show ?thesis by auto
  qed
qed

lemma add_routes_fails_iff:
  "(\<exists>e. add_routes parse routes r0 = Inl (Fatal e)) \<longleftrightarrow>
     (\<exists>(n, u) \<in> set routes. isl (parse u))"
proof
  assume "\<exists>e. add_routes parse routes r0 = Inl (Fatal e)"
  then obtain e where "add_routes parse routes r0 = Inl (Fatal e)" ..
  from add_routes_Inl [OF this] show "\<exists>(n, u) \<in> set routes. isl (parse u)"
    by (auto simp: isl_def)
next
  assume bad: "\<exists>(n, u) \<in> set routes. isl (parse u)"
  show "\<exists>e. add_routes parse routes r0 = Inl (Fatal e)"
  proof (cases "add_routes parse routes r0")
    case (Inl x)
    from add_routes_Inl [OF this] Inl show ?thesis by auto
  next
    case (Inr table)
    then have "\<forall>(n, u) \<in> set routes. \<not> isl (parse u)"
      by (simp add: add_routes_Inr)
    with bad show ?thesis by auto
  qed
qed







text \<open>
  Claim C3, as amended. The construction of the route table ends the process with a
  fatal error exactly when the URL parser returns an error for one of the configured
  backend URLs; otherwise the server is started with a route for every configured name,
  in the order of the loop, so no partial table is served. A backend URL that the parser
  accepts is taken as it is, with or without a scheme and a host.
\<close>

theorem route_table_fatal_iff_parse_error:
  assumes "Unmarshal bytes = Inr routes"
  shows "((\<exists>e. main (Inr bytes) Unmarshal parse = Inl (Fatal e)) \<longleftrightarrow>
            (\<exists>(n, u) \<in> set routes. isl (parse u))) \<and>
         ((\<exists>srv. main (Inr bytes) Unmarshal parse = Inr srv) \<longleftrightarrow>
            (\<forall>(n, u) \<in> set routes. \<not> isl (parse u))) \<and>
         (\<forall>srv. main (Inr bytes) Unmarshal parse = Inr srv \<longrightarrow>
            router srv = map (\<lambda>(n, u). route_for n (projr (parse u))) routes)"
proof -
  have m: "main (Inr bytes) Unmarshal parse =
      (case add_routes parse routes [] of
         Inl e \<Rightarrow> Inl e
       | Inr r \<Rightarrow> Inr \<lparr>addr = '':8080'', timeout = 10 * Second, router = r\<rparr>)"
    using assms by (simp add: main_def)
  have 1: "(\<exists>e. main (Inr bytes) Unmarshal parse = Inl (Fatal e)) \<longleftrightarrow>
            (\<exists>(n, u) \<in> set routes. isl (parse u))"
  proof (cases "add_routes parse routes []")
    case (Inl x)
    with add_routes_fails_iff [of parse routes "[]"] show ?thesis
      by (simp add: m)
  next
    case (Inr table)
    with add_routes_fails_iff [of parse routes "[]"] show ?thesis
      by (simp add: m)
  qed
  have 2: "(\<exists>srv. main (Inr bytes) Unmarshal parse = Inr srv) \<longleftrightarrow>
            (\<forall>(n, u) \<in> set routes. \<not> isl (parse u))"
  proof (cases "add_routes parse routes []")
    case (Inl x)
    from add_routes_Inl [OF Inl] have "\<exists>(n, u) \<in> set routes. isl (parse u)"
      by (auto simp: isl_def)
    with Inl show ?thesis by (auto simp: m)
  next
    case (Inr table)
    then have "\<forall>(n, u) \<in> set routes. \<not> isl (parse u)"
      by (simp add: add_routes_Inr)
    with Inr show ?thesis by (simp add: m)
  qed
  have 3: "\<forall>srv. main (Inr bytes) Unmarshal parse = Inr srv \<longrightarrow>
            router srv = map (\<lambda>(n, u). route_for n (projr (parse u))) routes"
    using add_routes_Inr [of parse routes "[]"]
    by (auto simp: m split: sum.splits)
  from 1 2 3 show ?thesis by blast
qed

theorem route_table_fatal_iff_parse_error_witness:
  "Unmarshal_examples ''routes: {svc: http://backend.local/%zz}'' =
     Inr [(''svc'', ''http://backend.local/%zz'')] \<and>
   isl (url_Parse_examples ''http://backend.local/%zz'') \<and>
   (\<exists>e. main (Inr ''routes: {svc: http://backend.local/%zz}'') Unmarshal_examples
           url_Parse_examples = Inl (Fatal e))"
proof -
  have u: "Unmarshal_examples ''routes: {svc: http://backend.local/%zz}'' =
     Inr [(''svc'', ''http://backend.local/%zz'')]"
    by (simp add: Unmarshal_examples_def)
  have p: "isl (url_Parse_examples ''http://backend.local/%zz'')"
    by (simp add: url_Parse_examples_def)
  from route_table_fatal_iff_parse_error [where Unmarshal = Unmarshal_examples
      and bytes = "''routes: {svc: http://backend.local/%zz}''"
      and routes = "[(''svc'', ''http://backend.local/%zz'')]"
      and parse = url_Parse_examples] u p
  show ?thesis by simp
qed

text \<open>
  Claim C3 as it was stated fails: the backend URL \<open>backend.local/base\<close> has
  neither scheme nor host, the parser returns it without an error, and \<open>main\<close> starts
  the server with the route.
\<close>

theorem relative_backend_url_accepted:
  "url_Parse_examples ''backend.local/base'' = Inr relative_backend \<and>
   Scheme relative_backend = [] \<and> Host relative_backend = [] \<and>
   main (Inr ''routes: {svc: backend.local/base}'') Unmarshal_examples url_Parse_examples =
     Inr \<lparr>addr = '':8080'', timeout = 10000000000,
          router = [\<lparr>PathPrefix = ''/svc/'',
             Handler = \<lparr>basePath = ''/svc'', target = relative_backend,
                        targetQuery = []\<rparr>\<rparr>]\<rparr>"
  by (simp add: main_def Unmarshal_examples_def url_Parse_examples_def
      NewRewriteReverseProxy_def relative_backend_def Second_def)







end
